theory Spec2Isabelle
  imports Complex_Main
begin

section \<open>JavaScript numbers\<close>

text \<open>
  The source computes with JavaScript numbers. They are modelled as exact reals together
  with the one special value the code can produce, \<open>NaN\<close> (from \<open>0 / 0\<close>); rounding
  is not modelled. Every arithmetic operation propagates \<open>NaN\<close>, \<open>Math.max\<close> returns
  \<open>NaN\<close> when an argument is \<open>NaN\<close>, and every comparison with \<open>NaN\<close> is false.
\<close>

datatype jsnum = NaN | Num real

fun jadd :: "jsnum \<Rightarrow> jsnum \<Rightarrow> jsnum" where
  "jadd (Num a) (Num b) = Num (a + b)"
| "jadd _ _ = NaN"

fun jmul :: "jsnum \<Rightarrow> jsnum \<Rightarrow> jsnum" where
  "jmul (Num a) (Num b) = Num (a * b)"
| "jmul _ _ = NaN"

fun jmax :: "jsnum \<Rightarrow> jsnum \<Rightarrow> jsnum" where
  "jmax (Num a) (Num b) = Num (max a b)"
| "jmax _ _ = NaN"

fun jgt :: "jsnum \<Rightarrow> jsnum \<Rightarrow> bool" where
  "jgt (Num a) (Num b) = (a > b)"
| "jgt _ _ = False"

text \<open>Division of a number by the length of a non-empty array.\<close>

fun jdiv_length :: "jsnum \<Rightarrow> nat \<Rightarrow> jsnum" where
  "jdiv_length (Num a) n = Num (a / real n)"
| "jdiv_length NaN n = NaN"

text \<open>
  Truthiness of a nullable timestamp, as in \<^verbatim>\<open>if (!this.speechStartTime)\<close>:
  \<open>null\<close> and \<open>0\<close> are falsy.
\<close>

definition truthy :: "int option \<Rightarrow> bool" where
  "truthy t = (case t of None \<Rightarrow> False | Some n \<Rightarrow> n \<noteq> 0)"

section \<open>VoiceProcessor: voice activity detection\<close>

text \<open>
  The fields of \<^verbatim>\<open>class VoiceProcessor\<close> that the detector reads and writes.
  Timestamps are the integers of \<^verbatim>\<open>Date.now()\<close> (milliseconds).
\<close>

record VoiceProcessor =
  vadEnabled :: bool
  vadThreshold :: real
  vadSmoothingFactor :: real
  vadMinSpeechDuration :: int
  vadSilenceTimeout :: int
  currentEnergy :: jsnum
  speechStartTime :: "int option"
  lastSpeechTime :: "int option"
  isSpeechActive :: bool
  energyHistory :: "jsnum list"
  maxHistoryLength :: nat

text \<open>The constructor.\<close>

definition VoiceProcessor_new :: VoiceProcessor where
  "VoiceProcessor_new =
     \<lparr> vadEnabled = True,
       vadThreshold = 0.01,
       vadSmoothingFactor = 0.8,
       vadMinSpeechDuration = 300,
       vadSilenceTimeout = 1000,
       currentEnergy = Num 0,
       speechStartTime = None,
       lastSpeechTime = None,
       isSpeechActive = False,
       energyHistory = [],
       maxHistoryLength = 10 \<rparr>"

text \<open>The two events the processor emits.\<close>

datatype event = SpeechStart | SpeechEnd

text \<open>
  \<^verbatim>\<open>calculateAudioEnergy(audioData)\<close>: the loop adds the squares of the samples;
  the result is \<^verbatim>\<open>Math.sqrt(sum / audioData.length)\<close>. For an array of length 0 the
  quotient is \<open>0 / 0\<close>, which is \<open>NaN\<close>, and \<^verbatim>\<open>Math.sqrt(NaN)\<close> is \<open>NaN\<close>.
\<close>

definition sumSquares :: "real list \<Rightarrow> real" where
  "sumSquares audioData = foldl (\<lambda>sum x. sum + x * x) 0 audioData"

definition calculateAudioEnergy :: "real list \<Rightarrow> jsnum" where
  "calculateAudioEnergy audioData =
     (if length audioData = 0 then NaN
      else Num (sqrt (sumSquares audioData / real (length audioData))))"

text \<open>\<^verbatim>\<open>updateEnergyHistory(energy)\<close>: push, then shift when the array is too long.\<close>

definition updateEnergyHistory :: "jsnum \<Rightarrow> VoiceProcessor \<Rightarrow> VoiceProcessor" where
  "updateEnergyHistory energy s =
     (let pushed = energyHistory s @ [energy]
      in s\<lparr>energyHistory :=
            (if length pushed > maxHistoryLength s then tl pushed else pushed)\<rparr>)"

text \<open>\<^verbatim>\<open>getAverageEnergy()\<close>.\<close>

definition getAverageEnergy :: "VoiceProcessor \<Rightarrow> jsnum" where
  "getAverageEnergy s =
     (if length (energyHistory s) = 0 then Num 0
      else jdiv_length (foldl jadd (Num 0) (energyHistory s)) (length (energyHistory s)))"

text \<open>
  \<^verbatim>\<open>processVAD(audioData)\<close>, in the three parts of its body. \<open>trackEnergy\<close> is the
  smoothing and the history update (the statements before the threshold is computed),
  \<open>adaptiveThreshold\<close> and \<open>isSpeechDetected\<close> are the local constants of these names,
  and \<open>speechDecision\<close> is the \<^verbatim>\<open>if (isSpeechDetected) ... else ...\<close> statement with
  the return value. \<open>currentTime\<close> is the value \<^verbatim>\<open>Date.now()\<close> returned in the call.
\<close>

definition trackEnergy :: "VoiceProcessor \<Rightarrow> real list \<Rightarrow> VoiceProcessor" where
  "trackEnergy s audioData =
     (let instantEnergy = calculateAudioEnergy audioData;
          s1 = s\<lparr>currentEnergy :=
                    jadd (jmul (Num (vadSmoothingFactor s)) (currentEnergy s))
                         (jmul (Num (1 - vadSmoothingFactor s)) instantEnergy)\<rparr>
      in updateEnergyHistory (currentEnergy s1) s1)"

definition adaptiveThreshold :: "VoiceProcessor \<Rightarrow> jsnum" where
  "adaptiveThreshold s = jmax (Num (vadThreshold s)) (jmul (getAverageEnergy s) (Num 1.5))"

definition isSpeechDetected :: "VoiceProcessor \<Rightarrow> bool" where
  "isSpeechDetected s = jgt (currentEnergy s) (adaptiveThreshold s)"

text \<open>\<^verbatim>\<open>currentTime - t\<close> for a nullable \<open>t\<close>: \<open>null\<close> converts to \<open>0\<close>.\<close>

definition since :: "int \<Rightarrow> int option \<Rightarrow> int" where
  "since currentTime t = (case t of None \<Rightarrow> currentTime | Some t0 \<Rightarrow> currentTime - t0)"

definition speechDecision ::
  "VoiceProcessor \<Rightarrow> bool \<Rightarrow> int \<Rightarrow> VoiceProcessor \<times> event list \<times> bool" where
  "speechDecision s detected currentTime =
     (if detected then
        (let s1 = (if \<not> truthy (speechStartTime s)
                   then s\<lparr>speechStartTime := Some currentTime\<rparr> else s);
             s2 = s1\<lparr>lastSpeechTime := Some currentTime\<rparr>;
             speechDuration = since currentTime (speechStartTime s2)
         in if speechDuration \<ge> vadMinSpeechDuration s2 \<and> \<not> isSpeechActive s2
            then (s2\<lparr>isSpeechActive := True\<rparr>, [SpeechStart], True)
            else (s2, [], isSpeechActive s2))
      else
        (if isSpeechActive s \<and> truthy (lastSpeechTime s) then
           (let silenceDuration = since currentTime (lastSpeechTime s)
            in if silenceDuration \<ge> vadSilenceTimeout s
               then (s\<lparr>isSpeechActive := False, speechStartTime := None\<rparr>, [SpeechEnd], False)
               else (s, [], isSpeechActive s))
         else (s, [], isSpeechActive s)))"

definition processVAD ::
  "VoiceProcessor \<Rightarrow> real list \<Rightarrow> int \<Rightarrow> VoiceProcessor \<times> event list \<times> bool" where
  "processVAD s audioData currentTime =
     (if \<not> vadEnabled s then (s, [], False)
      else (let s' = trackEnergy s audioData
            in speechDecision s' (isSpeechDetected s') currentTime))"

text \<open>\<^verbatim>\<open>setVADEnabled(enabled)\<close>.\<close>

definition setVADEnabled :: "bool \<Rightarrow> VoiceProcessor \<Rightarrow> VoiceProcessor \<times> event list" where
  "setVADEnabled enabled s =
     (let s1 = s\<lparr>vadEnabled := enabled\<rparr>
      in if \<not> enabled \<and> isSpeechActive s1
         then (s1\<lparr>isSpeechActive := False, speechStartTime := None\<rparr>, [SpeechEnd])
         else (s1, []))"

text \<open>
  A run of calls on one processor: the frames handed to \<open>processVAD\<close> with the time of
  each call, and calls of \<open>setVADEnabled\<close>. The events are collected in emission order.
\<close>

datatype call = ProcessVAD "real list" int | SetVADEnabled bool

fun exec :: "VoiceProcessor \<Rightarrow> call \<Rightarrow> VoiceProcessor \<times> event list" where
  "exec s (ProcessVAD audioData currentTime) =
     (case processVAD s audioData currentTime of (s', evs, _) \<Rightarrow> (s', evs))"
| "exec s (SetVADEnabled enabled) = setVADEnabled enabled s"

fun run :: "VoiceProcessor \<Rightarrow> call list \<Rightarrow> VoiceProcessor \<times> event list" where
  "run s [] = (s, [])"
| "run s (c # cs) =
     (case exec s c of (s', evs) \<Rightarrow>
        (case run s' cs of (s'', evs') \<Rightarrow> (s'', evs @ evs')))"


section \<open>AudioSystem: ducking the music\<close>

text \<open>
  The sinks. An audio element (\<^verbatim>\<open>new Audio(url)\<close>) has a volume; the fallback tone
  (\<^verbatim>\<open>this.demoAudio\<close>: an oscillator with its gain node) has a gain and, once
  \<open>fadeGain\<close> has scheduled \<^verbatim>\<open>linearRampToValueAtTime\<close>, the value the ramp ends at.
  Sinks are objects: they live in the stores \<open>audios\<close> and \<open>tones\<close> and are referred to
  by their index there, so that a sink that is no longer the current one still exists.
  \<open>el_volume\<close> is the element's \<^verbatim>\<open>volume\<close>.
\<close>

record audioElement =
  src :: string
  loop :: bool
  el_volume :: real
  paused :: bool

record demoTone =
  frequency :: real
  gain_value :: real
  rampTarget :: "real option"

text \<open>
  The closure of one \<^verbatim>\<open>setInterval\<close> timer started by \<open>fadeVolume\<close>: the element it
  captured and its local variables.
\<close>

record fadeInterval =
  fadeElement :: nat
  startVolume :: real
  volumeDiff :: real
  targetVolume :: real
  stepTime :: real
  currentStep :: nat

record AudioSystem =
  volume :: real
  currentAudio :: "nat option"
  demoAudio :: "nat option"
  isVADMuted :: bool
  originalVolume :: "real option"
  originalGain :: "real option"
  vadDuckingFactor :: real
  vadFadeTime :: real
  audios :: "audioElement list"
  tones :: "demoTone list"
  intervals :: "fadeInterval list"

text \<open>
  The constructor, for the fields above: those of \<^verbatim>\<open>class AudioSystem\<close> that the
  ducking and the playback of a sink read and write, together with the two stores and the
  running timers. \<^verbatim>\<open>this.demoAudio\<close> is undefined until a tone is played.
\<close>

definition AudioSystem_new :: AudioSystem where
  "AudioSystem_new =
     \<lparr> volume = 0.5,
       currentAudio = None,
       demoAudio = None,
       isVADMuted = False,
       originalVolume = None,
       originalGain = None,
       vadDuckingFactor = 0.2,
       vadFadeTime = 100,
       audios = [],
       tones = [],
       intervals = [] \<rparr>"

text \<open>Assignment to \<^verbatim>\<open>audioElement.volume\<close>.\<close>

definition setVolume :: "nat \<Rightarrow> real \<Rightarrow> audioElement list \<Rightarrow> audioElement list" where
  "setVolume r v els = els[r := (els ! r)\<lparr>el_volume := v\<rparr>]"

text \<open>
  \<^verbatim>\<open>fadeVolume(audioElement, targetVolume, duration)\<close> starts a timer. \<open>fadeTick\<close> is
  the timer's callback: it returns the elements and the timer, or \<open>None\<close> when the
  callback has cleared it.
\<close>

definition steps :: nat where
  "steps = 20"

definition fadeVolume :: "AudioSystem \<Rightarrow> nat option \<Rightarrow> real \<Rightarrow> real \<Rightarrow> AudioSystem" where
  "fadeVolume a audioElement target duration =
     (case audioElement of
        None \<Rightarrow> a
      | Some r \<Rightarrow>
          (let start = el_volume (audios a ! r)
           in a\<lparr>intervals := intervals a @
                  [\<lparr> fadeElement = r,
                     startVolume = start,
                     volumeDiff = target - start,
                     targetVolume = target,
                     stepTime = duration / real steps,
                     currentStep = 0 \<rparr>]\<rparr>))"

definition fadeTick ::
  "fadeInterval \<Rightarrow> audioElement list \<Rightarrow> audioElement list \<times> fadeInterval option" where
  "fadeTick f els =
     (let f1 = f\<lparr>currentStep := currentStep f + 1\<rparr>;
          progress = real (currentStep f1) / real steps;
          els1 = setVolume (fadeElement f1) (startVolume f1 + volumeDiff f1 * progress) els
      in if currentStep f1 \<ge> steps
         then (setVolume (fadeElement f1) (targetVolume f1) els1, None)
         else (els1, Some f1))"

text \<open>A fade that runs to completion: the callback fires until it clears its timer.\<close>

function runFade :: "fadeInterval \<Rightarrow> audioElement list \<Rightarrow> audioElement list" where
  "runFade f els =
     (case fadeTick f els of
        (els', None) \<Rightarrow> els'
      | (els', Some f') \<Rightarrow> runFade f' els')"
  by pat_completeness auto
termination
  by (relation "measure (\<lambda>(f, els). steps - currentStep f)")
     (auto simp: fadeTick_def Let_def split: if_splits)

declare runFade.simps [simp del]

text \<open>
  \<^verbatim>\<open>fadeGain(gainNode, targetGain, duration)\<close> pins the current value and schedules the
  linear ramp to \<open>targetGain\<close>; the ramp is carried out by the audio engine.
\<close>

definition fadeGain :: "AudioSystem \<Rightarrow> nat option \<Rightarrow> real \<Rightarrow> real \<Rightarrow> AudioSystem" where
  "fadeGain a gainNode targetGain duration =
     (case gainNode of
        None \<Rightarrow> a
      | Some d \<Rightarrow> a\<lparr>tones := (tones a)[d := (tones a ! d)\<lparr>rampTarget := Some targetGain\<rparr>]\<rparr>)"

text \<open>
  All pending fades carried out to their end: the timers in the order they were started,
  and the scheduled ramps of the tones.
\<close>

definition finishRamp :: "demoTone \<Rightarrow> demoTone" where
  "finishRamp t =
     (case rampTarget t of None \<Rightarrow> t | Some g \<Rightarrow> t\<lparr>gain_value := g, rampTarget := None\<rparr>)"

definition finishFades :: "AudioSystem \<Rightarrow> AudioSystem" where
  "finishFades a =
     a\<lparr>audios := foldl (\<lambda>els f. runFade f els) (audios a) (intervals a),
       intervals := [],
       tones := map finishRamp (tones a)\<rparr>"

text \<open>\<^verbatim>\<open>onSpeechDetected()\<close> and \<^verbatim>\<open>onSpeechEnded()\<close>.\<close>

definition onSpeechDetected :: "AudioSystem \<Rightarrow> AudioSystem" where
  "onSpeechDetected a =
     (if isVADMuted a then a
      else
        (let a1 = a\<lparr>isVADMuted := True\<rparr>;
             a2 = (case currentAudio a1 of
                     None \<Rightarrow> a1
                   | Some r \<Rightarrow>
                       (let v = el_volume (audios a1 ! r)
                        in fadeVolume (a1\<lparr>originalVolume := Some v\<rparr>) (Some r)
                             (v * vadDuckingFactor a1) (vadFadeTime a1)))
         in (case demoAudio a2 of
               None \<Rightarrow> a2
             | Some d \<Rightarrow>
                 (let g = gain_value (tones a2 ! d)
                  in fadeGain (a2\<lparr>originalGain := Some g\<rparr>) (Some d)
                       (g * vadDuckingFactor a2) (vadFadeTime a2)))))"

definition onSpeechEnded :: "AudioSystem \<Rightarrow> AudioSystem" where
  "onSpeechEnded a =
     (if \<not> isVADMuted a then a
      else
        (let a1 = a\<lparr>isVADMuted := False\<rparr>;
             a2 = (case (currentAudio a1, originalVolume a1) of
                     (Some r, Some v) \<Rightarrow> fadeVolume a1 (Some r) v (vadFadeTime a1)
                   | _ \<Rightarrow> a1)
         in (case (demoAudio a2, originalGain a2) of
               (Some d, Some g) \<Rightarrow> fadeGain a2 (Some d) g (vadFadeTime a2)
             | _ \<Rightarrow> a2)))"

text \<open>
  \<^verbatim>\<open>playTrack(track)\<close>. A preview URL is used when it is truthy (defined and not
  empty). \<open>played\<close> says whether \<^verbatim>\<open>play()\<close> succeeded; a failure is only logged.
\<close>

record track =
  track_name :: string
  preview_hq_mp3 :: "string option"
  preview_lq_mp3 :: "string option"

definition truthyUrl :: "string option \<Rightarrow> bool" where
  "truthyUrl u = (case u of None \<Rightarrow> False | Some s \<Rightarrow> s \<noteq> [])"

definition playTrack :: "AudioSystem \<Rightarrow> track \<Rightarrow> bool \<Rightarrow> AudioSystem" where
  "playTrack a t played =
     (let a1 = (case currentAudio a of
                  None \<Rightarrow> a
                | Some r \<Rightarrow> a\<lparr>audios := (audios a)[r := (audios a ! r)\<lparr>paused := True\<rparr>],
                              currentAudio := None\<rparr>);
          audioUrl = (if truthyUrl (preview_hq_mp3 t) then preview_hq_mp3 t else preview_lq_mp3 t)
      in (case audioUrl of
            None \<Rightarrow> a1
          | Some url \<Rightarrow>
              if url = [] then a1
              else a1\<lparr>audios := audios a1 @
                          [\<lparr> src = url, loop = True, el_volume = volume a1,
                             paused = (\<not> played) \<rparr>],
                      currentAudio := Some (length (audios a1))\<rparr>))"

text \<open>\<^verbatim>\<open>playDemoTrack(style)\<close>; the result is the new state and the name returned.\<close>

definition frequencies :: "string \<Rightarrow> real option" where
  "frequencies style =
     (if style = ''ambient'' then Some 220
      else if style = ''piano'' then Some 261.63
      else if style = ''nature'' then Some 110
      else if style = ''focus'' then Some 40
      else if style = ''electronic'' then Some 440
      else None)"

definition playDemoTrack :: "AudioSystem \<Rightarrow> string \<Rightarrow> AudioSystem \<times> string" where
  "playDemoTrack a style =
     (a\<lparr>tones := tones a @
            [\<lparr> frequency = (case frequencies style of Some f \<Rightarrow> f | None \<Rightarrow> 220),
               gain_value = volume a * 0.1,
               rampTarget = None \<rparr>],
        demoAudio := Some (length (tones a))\<rparr>,
      ''Demo '' @ style @ '' tone'')"

text \<open>
  The renderer subscribes the audio system to the processor's events:
  \<open>speechStart\<close> calls \<open>onSpeechDetected\<close>, \<open>speechEnd\<close> calls \<open>onSpeechEnded\<close>.
\<close>

fun dispatch :: "event \<Rightarrow> AudioSystem \<Rightarrow> AudioSystem" where
  "dispatch SpeechStart a = onSpeechDetected a"
| "dispatch SpeechEnd a = onSpeechEnded a"

definition deliver :: "event list \<Rightarrow> AudioSystem \<Rightarrow> AudioSystem" where
  "deliver evs a = foldl (\<lambda>a e. dispatch e a) a evs"

text \<open>
  A scenario used in the examples: the volume raised to \<open>0.8\<close>, a track playing, and the
  fallback tone started as well (\<open>playDemoTrack\<close> stops nothing).
\<close>

definition exampleTrack :: track where
  "exampleTrack =
     \<lparr> track_name = ''Rain'', preview_hq_mp3 = Some ''rain-hq.mp3'',
       preview_lq_mp3 = Some ''rain-lq.mp3'' \<rparr>"

definition examplePlaying :: AudioSystem where
  "examplePlaying =
     fst (playDemoTrack (playTrack (AudioSystem_new\<lparr>volume := 0.8\<rparr>) exampleTrack True) ''piano'')"

section \<open>Predicates used in the statements\<close>

text \<open>
  The invariant that carries the timing of an episode: while speech is active the time of
  the last frame with speech is recorded and truthy. It holds in every state reached from
  the constructor when no call of \<open>processVAD\<close> happens at time \<open>0\<close>.
\<close>

definition vad_inv :: "VoiceProcessor \<Rightarrow> bool" where
  "vad_inv s = (isSpeechActive s \<longrightarrow> truthy (lastSpeechTime s))"

fun times_nonzero :: "call list \<Rightarrow> bool" where
  "times_nonzero [] = True"
| "times_nonzero (ProcessVAD audioData currentTime # cs) = (currentTime \<noteq> 0 \<and> times_nonzero cs)"
| "times_nonzero (SetVADEnabled enabled # cs) = times_nonzero cs"

text \<open>
  An event sequence alternates when, starting from the given activity, every
  \<open>SpeechStart\<close> comes while inactive and every \<open>SpeechEnd\<close> while active.
\<close>

fun alternates :: "bool \<Rightarrow> event list \<Rightarrow> bool" where
  "alternates active [] = True"
| "alternates active (SpeechStart # evs) = (\<not> active \<and> alternates True evs)"
| "alternates active (SpeechEnd # evs) = (active \<and> alternates False evs)"

text \<open>
  The rolling average in the words of the specification: the mean of the history, \<open>0\<close>
  when the history is empty.
\<close>

definition rollingAverage :: "jsnum list \<Rightarrow> jsnum" where
  "rollingAverage h = (if h = [] then Num 0 else jdiv_length (foldr jadd h (Num 0)) (length h))"

section \<open>Properties of the detector\<close>

subsection \<open>Arithmetic of the number model\<close>

lemma jadd_commute: "jadd a b = jadd b a"
  by (cases a; cases b) simp_all

lemma jadd_assoc: "jadd (jadd a b) c = jadd a (jadd b c)"
  by (cases a; cases b; cases c) simp_all

lemma foldl_jadd_shift: "foldl jadd (jadd a b) h = jadd a (foldl jadd b h)"
  by (induction h arbitrary: b) (simp_all add: jadd_assoc)

lemma foldl_jadd_foldr: "foldl jadd (Num 0) h = foldr jadd h (Num 0)"
proof (induction h)
  case Nil
  show ?case by simp
next
  case (Cons x h)
  have "foldl jadd (jadd (Num 0) x) h = foldl jadd (jadd x (Num 0)) h"
    by (simp add: jadd_commute)
  also have "\<dots> = jadd x (foldl jadd (Num 0) h)"
    by (rule foldl_jadd_shift)
  finally show ?case using Cons by simp
qed

lemma foldr_jadd_Num: "foldr jadd (map Num h) (Num 0) = Num (sum_list h)"
  by (induction h) simp_all

lemma getAverageEnergy_rollingAverage: "getAverageEnergy s = rollingAverage (energyHistory s)"
  by (simp add: getAverageEnergy_def rollingAverage_def foldl_jadd_foldr)

lemma rollingAverage_Num:
  "rollingAverage (map Num h) = Num (if h = [] then 0 else sum_list h / real (length h))"
  by (simp add: rollingAverage_def foldr_jadd_Num)

subsection \<open>The energy of a frame\<close>

lemma sumSquares_foldl: "foldl (\<lambda>sum x. sum + x * x) (acc::real) xs = acc + (\<Sum>x\<leftarrow>xs. x\<^sup>2)"
  by (induction xs arbitrary: acc) (simp_all add: power2_eq_square algebra_simps)

lemma sumSquares_sum_list: "sumSquares xs = (\<Sum>x\<leftarrow>xs. x\<^sup>2)"
  by (simp add: sumSquares_def sumSquares_foldl)

lemma sum_list_squares_nonneg: "0 \<le> (\<Sum>x\<leftarrow>xs. (x::real)\<^sup>2)"
  by (induction xs) simp_all

lemma calculateAudioEnergy_rms:
  "audioData \<noteq> [] \<Longrightarrow>
     calculateAudioEnergy audioData
       = Num (sqrt ((\<Sum>x\<leftarrow>audioData. x\<^sup>2) / real (length audioData)))
     \<and> 0 \<le> sqrt ((\<Sum>x\<leftarrow>audioData. x\<^sup>2) / real (length audioData))"
  by (simp add: calculateAudioEnergy_def sumSquares_sum_list sum_list_squares_nonneg)

subsection \<open>What the tracker and the decision leave alone\<close>

lemma trackEnergy_fields:
  "vadEnabled (trackEnergy s a) = vadEnabled s"
  "vadThreshold (trackEnergy s a) = vadThreshold s"
  "vadSmoothingFactor (trackEnergy s a) = vadSmoothingFactor s"
  "vadMinSpeechDuration (trackEnergy s a) = vadMinSpeechDuration s"
  "vadSilenceTimeout (trackEnergy s a) = vadSilenceTimeout s"
  "speechStartTime (trackEnergy s a) = speechStartTime s"
  "lastSpeechTime (trackEnergy s a) = lastSpeechTime s"
  "isSpeechActive (trackEnergy s a) = isSpeechActive s"
  "maxHistoryLength (trackEnergy s a) = maxHistoryLength s"
  by (simp_all add: trackEnergy_def updateEnergyHistory_def Let_def)

lemma trackEnergy_currentEnergy:
  "currentEnergy (trackEnergy s a)
     = jadd (jmul (Num (vadSmoothingFactor s)) (currentEnergy s))
            (jmul (Num (1 - vadSmoothingFactor s)) (calculateAudioEnergy a))"
  by (simp add: trackEnergy_def updateEnergyHistory_def Let_def)

lemma trackEnergy_energyHistory:
  "energyHistory (trackEnergy s a)
     = (if length (energyHistory s) + 1 > maxHistoryLength s
        then tl (energyHistory s @ [currentEnergy (trackEnergy s a)])
        else energyHistory s @ [currentEnergy (trackEnergy s a)])"
  by (simp add: trackEnergy_def updateEnergyHistory_def Let_def)

lemma trackEnergy_eq:
  "trackEnergy s a
     = s\<lparr>currentEnergy := currentEnergy (trackEnergy s a),
          energyHistory := energyHistory (trackEnergy s a)\<rparr>"
  by (simp add: trackEnergy_def updateEnergyHistory_def Let_def)

lemma trackEnergy_length:
  "length (energyHistory s) \<le> maxHistoryLength s \<Longrightarrow>
     length (energyHistory (trackEnergy s a)) \<le> maxHistoryLength s"
  by (simp add: trackEnergy_energyHistory)

lemma speechDecision_fields:
  "vadEnabled (fst (speechDecision s d t)) = vadEnabled s"
  "maxHistoryLength (fst (speechDecision s d t)) = maxHistoryLength s"
  "energyHistory (fst (speechDecision s d t)) = energyHistory s"
  "currentEnergy (fst (speechDecision s d t)) = currentEnergy s"
  "vadSilenceTimeout (fst (speechDecision s d t)) = vadSilenceTimeout s"
  "vadMinSpeechDuration (fst (speechDecision s d t)) = vadMinSpeechDuration s"
  by (simp_all add: speechDecision_def Let_def)

lemma processVAD_enabled:
  "vadEnabled s \<Longrightarrow>
     processVAD s a t = speechDecision (trackEnergy s a) (isSpeechDetected (trackEnergy s a)) t"
  by (simp add: processVAD_def Let_def)

lemma processVAD_history_length:
  "length (energyHistory s) \<le> maxHistoryLength s \<Longrightarrow>
     length (energyHistory (fst (processVAD s a t))) \<le> maxHistoryLength s
     \<and> maxHistoryLength (fst (processVAD s a t)) = maxHistoryLength s"
  by (cases "vadEnabled s")
     (simp_all add: processVAD_def Let_def speechDecision_fields trackEnergy_fields
        trackEnergy_length)

lemma setVADEnabled_history:
  "energyHistory (fst (setVADEnabled b s)) = energyHistory s
   \<and> maxHistoryLength (fst (setVADEnabled b s)) = maxHistoryLength s"
  by (simp add: setVADEnabled_def Let_def)

lemma exec_history_length:
  "length (energyHistory s) \<le> maxHistoryLength s \<Longrightarrow>
     length (energyHistory (fst (exec s c))) \<le> maxHistoryLength (fst (exec s c))
     \<and> maxHistoryLength (fst (exec s c)) = maxHistoryLength s"
proof (cases c)
  case (ProcessVAD a t)
  assume "length (energyHistory s) \<le> maxHistoryLength s"
  from processVAD_history_length [OF this, of a t] ProcessVAD show ?thesis
    by (simp add: split_beta)
next
  case (SetVADEnabled b)
  assume "length (energyHistory s) \<le> maxHistoryLength s"
  with SetVADEnabled show ?thesis
    by (simp add: setVADEnabled_history)
qed

lemma run_history_length:
  "length (energyHistory s) \<le> maxHistoryLength s \<Longrightarrow>
     length (energyHistory (fst (run s cs))) \<le> maxHistoryLength s
     \<and> maxHistoryLength (fst (run s cs)) = maxHistoryLength s"
proof (induction cs arbitrary: s)
  case Nil
  then show ?case by simp
next
  case (Cons c cs)
  from exec_history_length [OF Cons.prems, of c]
  have e: "length (energyHistory (fst (exec s c))) \<le> maxHistoryLength (fst (exec s c))"
    and m: "maxHistoryLength (fst (exec s c)) = maxHistoryLength s"
    by simp_all
  from Cons.IH [OF e] m show ?case
    by (simp add: split_beta)
qed

subsection \<open>Runs\<close>

lemmas vad_eval = VoiceProcessor_new_def processVAD_def trackEnergy_def calculateAudioEnergy_def
  sumSquares_def updateEnergyHistory_def getAverageEnergy_def adaptiveThreshold_def
  isSpeechDetected_def speechDecision_def since_def truthy_def setVADEnabled_def Let_def

lemma run_append:
  "run s (xs @ ys) =
     (case run s xs of (s', evs) \<Rightarrow> (case run s' ys of (s'', evs') \<Rightarrow> (s'', evs @ evs')))"
  by (induction xs arbitrary: s) (auto split: prod.splits)

lemma run_disabled_frames:
  "\<not> vadEnabled s \<Longrightarrow> run s (map (\<lambda>(a, t). ProcessVAD a t) frames) = (s, [])"
  by (induction frames) (auto simp: processVAD_def)

subsection \<open>Frames while detection is disabled\<close>

text \<open>
  Claim C10. When \<open>vadEnabled\<close> is false, \<open>processVAD\<close> returns \<open>false\<close>, emits no event
  and leaves every field of the detector as it was (\<open>currentEnergy\<close>, \<open>energyHistory\<close>,
  \<open>speechStartTime\<close>, \<open>lastSpeechTime\<close>, \<open>isSpeechActive\<close>). So any frames that arrive
  while detection is disabled have no effect on what happens after it is enabled again:
  a run that starts with such frames continues exactly like the run without them.
\<close>

theorem processVAD_disabled_noop:
  "\<not> vadEnabled s \<Longrightarrow>
     processVAD s audioData currentTime = (s, [], False)
     \<and> run s (map (\<lambda>(a, t). ProcessVAD a t) frames @ SetVADEnabled True # cs)
         = run s (SetVADEnabled True # cs)"
  by (simp add: run_append run_disabled_frames) (simp add: processVAD_def)

theorem processVAD_disabled_noop_witness:
  "\<not> vadEnabled (VoiceProcessor_new\<lparr>vadEnabled := False\<rparr>)
   \<and> processVAD (VoiceProcessor_new\<lparr>vadEnabled := False\<rparr>) [1] 1000
       = (VoiceProcessor_new\<lparr>vadEnabled := False\<rparr>, [], False)
   \<and> run (VoiceProcessor_new\<lparr>vadEnabled := False\<rparr>)
         [ProcessVAD [1] 1000, ProcessVAD [1] 1256, SetVADEnabled True]
       = (VoiceProcessor_new, [])"
  using processVAD_disabled_noop
    [of "VoiceProcessor_new\<lparr>vadEnabled := False\<rparr>" "[1]" 1000 "[([1], 1000), ([1], 1256)]" "[]"]
  by (simp add: VoiceProcessor_new_def setVADEnabled_def processVAD_def)

subsection \<open>The energy of an empty frame\<close>

text \<open>
  Claim C3. The claim says that \<open>calculateAudioEnergy\<close> returns energy \<open>0\<close> for a frame
  of length zero. The code divides \<open>0\<close> by the length \<open>0\<close> and returns \<open>NaN\<close>, which is
  not \<open>0\<close>. The value then enters \<open>currentEnergy\<close>, which stays \<open>NaN\<close> from there on,
  and no later comparison with the threshold succeeds: the three loud frames that start
  an episode in the first run below start none after one empty frame. (For a non-empty
  frame the result is the non-negative root mean square, lemma
  \<open>calculateAudioEnergy_rms\<close>.)
\<close>

theorem calculateAudioEnergy_empty_frame:
  "calculateAudioEnergy [] = NaN
   \<and> calculateAudioEnergy [] \<noteq> Num 0
   \<and> currentEnergy (fst (processVAD VoiceProcessor_new [] 1000)) = NaN
   \<and> snd (run VoiceProcessor_new
        [ProcessVAD [0] 1000, ProcessVAD [1] 1256, ProcessVAD [1] 1512, ProcessVAD [1] 1768])
       = [SpeechStart]
   \<and> snd (run VoiceProcessor_new
        [ProcessVAD [0] 1000, ProcessVAD [] 1100, ProcessVAD [1] 1256, ProcessVAD [1] 1512,
         ProcessVAD [1] 1768])
       = []"
  by (simp add: vad_eval)

subsection \<open>The adaptive threshold\<close>

text \<open>
  Claim C4. On every frame processed while detection is enabled, with instantaneous energy
  \<open>e\<close>: \<open>currentEnergy\<close> becomes
  \<open>vadSmoothingFactor * currentEnergy + (1 - vadSmoothingFactor) * e\<close> (the factor is
  \<open>0.8\<close>); the new value is appended to the history and the oldest entry is dropped when
  the length would exceed \<open>maxHistoryLength\<close>, so a history within the capacity stays
  within it, and in every state reached from the constructor its length is at most \<open>10\<close>;
  the rolling average is the mean of the history (\<open>0\<close> when empty); and the decision
  taken on the frame compares the new \<open>currentEnergy\<close> with
  \<open>max(vadThreshold, rollingAverage * 1.5)\<close>.
\<close>

theorem adaptive_threshold_update:
  "vadEnabled s \<Longrightarrow>
     (let e = calculateAudioEnergy audioData;
          cur = jadd (jmul (Num (vadSmoothingFactor s)) (currentEnergy s))
                     (jmul (Num (1 - vadSmoothingFactor s)) e);
          hist = (if length (energyHistory s) + 1 > maxHistoryLength s
                  then tl (energyHistory s @ [cur]) else energyHistory s @ [cur]);
          threshold = jmax (Num (vadThreshold s)) (jmul (rollingAverage hist) (Num 1.5))
      in processVAD s audioData currentTime
           = speechDecision (s\<lparr>currentEnergy := cur, energyHistory := hist\<rparr>)
               (jgt cur threshold) currentTime
         \<and> currentEnergy (fst (processVAD s audioData currentTime)) = cur
         \<and> energyHistory (fst (processVAD s audioData currentTime)) = hist
         \<and> (length (energyHistory s) \<le> maxHistoryLength s
              \<longrightarrow> length hist \<le> maxHistoryLength s)
         \<and> (\<forall>c x. currentEnergy s = Num c \<and> e = Num x
              \<longrightarrow> cur = Num (vadSmoothingFactor s * c + (1 - vadSmoothingFactor s) * x))
         \<and> (\<forall>h. hist = map Num h
              \<longrightarrow> rollingAverage hist
                    = Num (if h = [] then 0 else sum_list h / real (length h))))
     \<and> vadSmoothingFactor VoiceProcessor_new = 0.8
     \<and> length (energyHistory (fst (run VoiceProcessor_new cs))) \<le> 10"
proof -
  assume en: "vadEnabled s"
  let ?s' = "trackEnergy s audioData"
  have eq: "?s' = s\<lparr>currentEnergy := currentEnergy ?s', energyHistory := energyHistory ?s'\<rparr>"
    by (rule trackEnergy_eq)
  have thr: "adaptiveThreshold ?s'
      = jmax (Num (vadThreshold s)) (jmul (rollingAverage (energyHistory ?s')) (Num 1.5))"
    by (simp add: adaptiveThreshold_def getAverageEnergy_rollingAverage trackEnergy_fields)
  have p: "processVAD s audioData currentTime
      = speechDecision ?s' (jgt (currentEnergy ?s') (adaptiveThreshold ?s')) currentTime"
    using en by (simp add: processVAD_enabled isSpeechDetected_def)
  have c: "currentEnergy (fst (processVAD s audioData currentTime)) = currentEnergy ?s'"
    by (simp add: p speechDecision_fields)
  have h: "energyHistory (fst (processVAD s audioData currentTime)) = energyHistory ?s'"
    by (simp add: p speechDecision_fields)
  have r: "length (energyHistory (fst (run VoiceProcessor_new cs))) \<le> 10"
    using run_history_length [of VoiceProcessor_new cs] by (simp add: VoiceProcessor_new_def)
  have f: "vadSmoothingFactor VoiceProcessor_new = 0.8"
    by (simp add: VoiceProcessor_new_def)
  have p': "processVAD s audioData currentTime
      = speechDecision (s\<lparr>currentEnergy := currentEnergy ?s', energyHistory := energyHistory ?s'\<rparr>)
          (jgt (currentEnergy ?s') (adaptiveThreshold ?s')) currentTime"
    using p eq by simp
  show ?thesis
    unfolding Let_def
    using p' c h r f thr
    by (simp add: trackEnergy_currentEnergy trackEnergy_energyHistory rollingAverage_Num)
qed

theorem adaptive_threshold_update_witness:
  "vadEnabled VoiceProcessor_new
   \<and> currentEnergy (fst (processVAD VoiceProcessor_new [1] 1000)) = Num (1 / 5)
   \<and> energyHistory (fst (processVAD VoiceProcessor_new [1] 1000)) = [Num (1 / 5)]
   \<and> processVAD VoiceProcessor_new [1] 1000
       = speechDecision
           (VoiceProcessor_new\<lparr>currentEnergy := Num (1 / 5), energyHistory := [Num (1 / 5)]\<rparr>)
           False 1000
   \<and> length (energyHistory VoiceProcessor_new) \<le> maxHistoryLength VoiceProcessor_new"
  using adaptive_threshold_update [of VoiceProcessor_new "[1]" 1000 "[]"]
  by (simp add: VoiceProcessor_new_def calculateAudioEnergy_def sumSquares_def rollingAverage_def
        Let_def speechDecision_fields)

subsection \<open>The end of an episode\<close>

lemma speechDecision_cases:
  "speechDecision s d t = (s', evs, r) \<Longrightarrow>
     (evs = [] \<and> isSpeechActive s' = isSpeechActive s)
     \<or> (evs = [SpeechStart] \<and> \<not> isSpeechActive s \<and> isSpeechActive s')
     \<or> (evs = [SpeechEnd] \<and> isSpeechActive s \<and> \<not> isSpeechActive s')"
  by (auto simp: speechDecision_def Let_def split: if_splits)

lemma exec_cases:
  "exec s c = (s', evs) \<Longrightarrow>
     (evs = [] \<and> isSpeechActive s' = isSpeechActive s)
     \<or> (evs = [SpeechStart] \<and> \<not> isSpeechActive s \<and> isSpeechActive s')
     \<or> (evs = [SpeechEnd] \<and> isSpeechActive s \<and> \<not> isSpeechActive s')"
proof (cases c)
  case (ProcessVAD a t)
  assume e: "exec s c = (s', evs)"
  show ?thesis
  proof (cases "vadEnabled s")
    case True
    obtain r where "speechDecision (trackEnergy s a) (isSpeechDetected (trackEnergy s a)) t = (s', evs, r)"
      using e ProcessVAD True by (auto simp: processVAD_enabled split: prod.splits)
    from speechDecision_cases [OF this] show ?thesis
      by (simp add: trackEnergy_fields)
  next
    case False
    with e ProcessVAD show ?thesis by (auto simp: processVAD_def)
  qed
next
  case (SetVADEnabled b)
  assume "exec s c = (s', evs)"
  with SetVADEnabled show ?thesis
    by (auto simp: setVADEnabled_def Let_def split: if_splits)
qed

lemma run_alternates: "alternates (isSpeechActive s) (snd (run s cs))"
proof (induction cs arbitrary: s)
  case Nil
  show ?case by simp
next
  case (Cons c cs)
  obtain s' evs where e: "exec s c = (s', evs)" by (cases "exec s c")
  from exec_cases [OF e] Cons.IH [of s'] e show ?case
    by (auto simp: split_beta)
qed

lemma speechDecision_inv:
  "vad_inv s \<Longrightarrow> t \<noteq> 0 \<Longrightarrow> vad_inv (fst (speechDecision s d t))"
  by (simp add: speechDecision_def vad_inv_def truthy_def Let_def)

lemma trackEnergy_inv: "vad_inv (trackEnergy s a) = vad_inv s"
  by (simp add: vad_inv_def trackEnergy_fields)

lemma processVAD_inv:
  "vad_inv s \<Longrightarrow> t \<noteq> 0 \<Longrightarrow> vad_inv (fst (processVAD s a t))"
  by (cases "vadEnabled s")
     (simp_all add: processVAD_def Let_def speechDecision_inv trackEnergy_inv)

lemma setVADEnabled_inv: "vad_inv s \<Longrightarrow> vad_inv (fst (setVADEnabled b s))"
  by (simp add: setVADEnabled_def vad_inv_def Let_def)

lemma run_inv: "vad_inv s \<Longrightarrow> times_nonzero cs \<Longrightarrow> vad_inv (fst (run s cs))"
proof (induction cs arbitrary: s)
  case Nil
  then show ?case by simp
next
  case (Cons c cs)
  have "vad_inv (fst (exec s c))"
  proof (cases c)
    case (ProcessVAD a t)
    with Cons.prems processVAD_inv [of s t a] show ?thesis
      by (simp add: split_beta)
  next
    case (SetVADEnabled b)
    with Cons.prems setVADEnabled_inv [of s b] show ?thesis by simp
  qed
  moreover have "times_nonzero cs"
    using Cons.prems by (cases c) simp_all
  ultimately have "vad_inv (fst (run (fst (exec s c)) cs))"
    by (rule Cons.IH)
  then show ?case by (simp add: split_beta)
qed

lemma speechDecision_SpeechEnd:
  "vad_inv s \<Longrightarrow>
     (SpeechEnd \<in> set (fst (snd (speechDecision s d t))))
       = (isSpeechActive s \<and> \<not> d
          \<and> (\<exists>t0. lastSpeechTime s = Some t0 \<and> vadSilenceTimeout s \<le> t - t0))"
  by (auto simp: speechDecision_def vad_inv_def truthy_def since_def Let_def
           split: option.splits)

lemma speechDecision_SpeechEnd_post:
  "SpeechEnd \<in> set (fst (snd (speechDecision s d t))) \<Longrightarrow>
     fst (snd (speechDecision s d t)) = [SpeechEnd]
     \<and> \<not> isSpeechActive (fst (speechDecision s d t))"
  by (auto simp: speechDecision_def Let_def split: if_splits)

lemma speechDecision_lastSpeechTime:
  "lastSpeechTime (fst (speechDecision s d t)) = (if d then Some t else lastSpeechTime s)"
  by (simp add: speechDecision_def Let_def)

text \<open>
  Claim C2. For a speech episode (from an entry to the active state), \<open>SpeechEnd\<close> is
  emitted by \<open>processVAD\<close> exactly at a frame without detected speech for which the
  current time minus \<open>lastSpeechTime\<close> (the time of the last frame with detected speech)
  is at least \<open>vadSilenceTimeout\<close>: on the first such frame it is emitted, and on no
  frame before that much silence. The frame that emits it leaves the active state, and in
  every run the events alternate, so a second \<open>SpeechEnd\<close> needs a new \<open>SpeechStart\<close>
  first. Timestamps are those of \<^verbatim>\<open>Date.now()\<close>, which is never \<open>0\<close>.
\<close>

theorem speechEnd_exactly_once:
  "vadEnabled s \<Longrightarrow> vad_inv s \<Longrightarrow> currentTime \<noteq> 0 \<Longrightarrow>
     ((SpeechEnd \<in> set (fst (snd (processVAD s audioData currentTime))))
        = (isSpeechActive s \<and> \<not> isSpeechDetected (trackEnergy s audioData)
           \<and> (\<exists>t0. lastSpeechTime s = Some t0 \<and> vadSilenceTimeout s \<le> currentTime - t0)))
     \<and> (SpeechEnd \<in> set (fst (snd (processVAD s audioData currentTime)))
          \<longrightarrow> fst (snd (processVAD s audioData currentTime)) = [SpeechEnd]
              \<and> \<not> isSpeechActive (fst (processVAD s audioData currentTime)))
     \<and> lastSpeechTime (fst (processVAD s audioData currentTime))
         = (if isSpeechDetected (trackEnergy s audioData) then Some currentTime
            else lastSpeechTime s)
     \<and> vad_inv (fst (processVAD s audioData currentTime))
     \<and> alternates (isSpeechActive s) (snd (run s cs))
     \<and> (times_nonzero cs \<longrightarrow> vad_inv (fst (run s cs)))"
proof -
  assume en: "vadEnabled s" and inv: "vad_inv s" and t: "currentTime \<noteq> 0"
  let ?s = "trackEnergy s audioData"
  have p: "processVAD s audioData currentTime = speechDecision ?s (isSpeechDetected ?s) currentTime"
    using en by (rule processVAD_enabled)
  have inv': "vad_inv ?s" using inv by (simp add: trackEnergy_inv)
  have a: "(SpeechEnd \<in> set (fst (snd (processVAD s audioData currentTime))))
        = (isSpeechActive s \<and> \<not> isSpeechDetected ?s
           \<and> (\<exists>t0. lastSpeechTime s = Some t0 \<and> vadSilenceTimeout s \<le> currentTime - t0))"
    unfolding p using speechDecision_SpeechEnd [OF inv', of "isSpeechDetected ?s" currentTime]
    by (simp add: trackEnergy_fields)
  have b: "SpeechEnd \<in> set (fst (snd (processVAD s audioData currentTime)))
          \<longrightarrow> fst (snd (processVAD s audioData currentTime)) = [SpeechEnd]
              \<and> \<not> isSpeechActive (fst (processVAD s audioData currentTime))"
    unfolding p using speechDecision_SpeechEnd_post by blast
  have c: "lastSpeechTime (fst (processVAD s audioData currentTime))
         = (if isSpeechDetected ?s then Some currentTime else lastSpeechTime s)"
    unfolding p by (simp add: speechDecision_lastSpeechTime trackEnergy_fields)
  have d: "vad_inv (fst (processVAD s audioData currentTime))"
    using inv t by (rule processVAD_inv)
  have e: "alternates (isSpeechActive s) (snd (run s cs))"
    by (rule run_alternates)
  have f: "times_nonzero cs \<longrightarrow> vad_inv (fst (run s cs))"
    using inv run_inv by blast
  from a b c d e f show ?thesis by blast
qed

theorem speechEnd_exactly_once_witness:
  "(let s = fst (run VoiceProcessor_new
                 [ProcessVAD [0] 1000, ProcessVAD [1] 1256, ProcessVAD [1] 1512,
                  ProcessVAD [1] 1768, ProcessVAD [0] 2024, ProcessVAD [0] 2280,
                  ProcessVAD [0] 2536])
    in vadEnabled s \<and> vad_inv s \<and> (2792::int) \<noteq> 0
       \<and> isSpeechActive s \<and> lastSpeechTime s = Some 1768
       \<and> fst (snd (processVAD s [0] 2792)) = [SpeechEnd]
       \<and> \<not> isSpeechActive (fst (processVAD s [0] 2792))
       \<and> snd (run s [ProcessVAD [0] 2792, ProcessVAD [0] 3048]) = [SpeechEnd])"
  using speechEnd_exactly_once
    [of "fst (run VoiceProcessor_new
                 [ProcessVAD [0] 1000, ProcessVAD [1] 1256, ProcessVAD [1] 1512,
                  ProcessVAD [1] 1768, ProcessVAD [0] 2024, ProcessVAD [0] 2280,
                  ProcessVAD [0] 2536])" 2792 "[0]" "[ProcessVAD [0] 2792, ProcessVAD [0] 3048]"]
  by (simp add: vad_eval vad_inv_def)

subsection \<open>A short burst of speech\<close>

text \<open>
  Claim C1. The claim says that when the energy rises above the threshold and falls back
  before \<open>vadMinSpeechDuration\<close> has passed, no event is emitted and \<open>speechStartTime\<close>
  is reset to null, so that a later frame above the threshold starts timing afresh. In the
  code no event is emitted, but \<open>speechStartTime\<close> keeps the time of the aborted burst:
  below, speech is detected at 1256 and no longer at 1512, the start time stays 1256, and
  the single loud frame at 2280, after three silent frames, emits \<open>SpeechStart\<close> at
  once, its duration being measured from 1256.
\<close>

theorem aborted_speech_keeps_start_time:
  "isSpeechDetected (trackEnergy (fst (run VoiceProcessor_new [ProcessVAD [0] 1000])) [1])
   \<and> \<not> isSpeechDetected
        (trackEnergy (fst (run VoiceProcessor_new [ProcessVAD [0] 1000, ProcessVAD [1] 1256])) [0])
   \<and> run VoiceProcessor_new [ProcessVAD [0] 1000, ProcessVAD [1] 1256, ProcessVAD [0] 1512]
       = (VoiceProcessor_new
            \<lparr>currentEnergy := Num (4 / 25), speechStartTime := Some 1256,
             lastSpeechTime := Some 1256,
             energyHistory := [Num 0, Num (1 / 5), Num (4 / 25)]\<rparr>, [])
   \<and> snd (run VoiceProcessor_new
        [ProcessVAD [0] 1000, ProcessVAD [1] 1256, ProcessVAD [0] 1512, ProcessVAD [0] 1768,
         ProcessVAD [0] 2024, ProcessVAD [1] 2280])
       = [SpeechStart]"
  by (simp add: vad_eval)

subsection \<open>Enabling detection again\<close>

text \<open>
  Claim C8, as stated, fails: \<open>setVADEnabled(true)\<close> does not reset the timers. A burst
  at 1256, then disabling and enabling, leaves both timers at 1256, and the first loud
  frame afterwards, at 5000, emits \<open>SpeechStart\<close> at once; with the timers reset it
  would emit nothing.
\<close>

theorem setVADEnabled_true_keeps_timers_counterexample:
  "speechStartTime (fst (run VoiceProcessor_new
      [ProcessVAD [0] 1000, ProcessVAD [1] 1256, SetVADEnabled False, SetVADEnabled True]))
     = Some 1256
   \<and> lastSpeechTime (fst (run VoiceProcessor_new
      [ProcessVAD [0] 1000, ProcessVAD [1] 1256, SetVADEnabled False, SetVADEnabled True]))
     = Some 1256
   \<and> snd (run VoiceProcessor_new
      [ProcessVAD [0] 1000, ProcessVAD [1] 1256, SetVADEnabled False, SetVADEnabled True,
       ProcessVAD [1] 5000])
     = [SpeechStart]
   \<and> snd (exec
        ((fst (run VoiceProcessor_new
           [ProcessVAD [0] 1000, ProcessVAD [1] 1256, SetVADEnabled False, SetVADEnabled True]))
         \<lparr>speechStartTime := None, lastSpeechTime := None\<rparr>)
        (ProcessVAD [1] 5000))
     = []"
  by (simp add: vad_eval)

text \<open>
  Claim C8, amended. \<open>setVADEnabled(true)\<close> sets \<open>vadEnabled\<close> and does nothing else: it
  emits no event, so nothing that was missed while disabled is replayed, and it leaves
  \<open>speechStartTime\<close>, \<open>lastSpeechTime\<close> and every other field as they were.
\<close>

theorem setVADEnabled_true_only_sets_flag:
  "setVADEnabled True s = (s\<lparr>vadEnabled := True\<rparr>, [])"
  by (simp add: setVADEnabled_def)

section \<open>Properties of the ducking\<close>

subsection \<open>Fades\<close>

lemma setVolume_length: "length (setVolume r v els) = length els"
  by (simp add: setVolume_def)

lemma setVolume_setVolume: "setVolume r v (setVolume r w els) = setVolume r v els"
  by (cases "r < length els") (simp_all add: setVolume_def list_update_beyond)

lemma setVolume_nth:
  "r < length els \<Longrightarrow> setVolume r v els ! r = (els ! r)\<lparr>el_volume := v\<rparr>"
  by (simp add: setVolume_def)

lemma runFade_setVolume: "runFade f els = setVolume (fadeElement f) (targetVolume f) els"
proof (induction f els rule: runFade.induct)
  case (1 f els)
  let ?f1 = "f\<lparr>currentStep := currentStep f + 1\<rparr>"
  let ?els1 = "setVolume (fadeElement f)
                 (startVolume f + volumeDiff f * (real (currentStep f + 1) / real steps)) els"
  show ?case
  proof (cases "currentStep f + 1 \<ge> steps")
    case True
    then have t: "fadeTick f els = (setVolume (fadeElement f) (targetVolume f) ?els1, None)"
      by (simp add: fadeTick_def Let_def)
    show ?thesis
      by (subst runFade.simps) (simp add: t setVolume_setVolume)
  next
    case False
    then have t: "fadeTick f els = (?els1, Some ?f1)"
      by (simp add: fadeTick_def Let_def)
    from "1.IH" [OF t [symmetric] refl]
    have "runFade ?f1 ?els1 = setVolume (fadeElement f) (targetVolume f) ?els1"
      by simp
    then show ?thesis
      by (subst runFade.simps) (simp add: t setVolume_setVolume)
  qed
qed


lemmas audio_eval = AudioSystem_new_def onSpeechDetected_def onSpeechEnded_def fadeVolume_def
  fadeGain_def finishFades_def finishRamp_def playTrack_def playDemoTrack_def truthyUrl_def
  frequencies_def deliver_def setVolume_def runFade_setVolume Let_def


lemma fadeVolume_fields:
  "isVADMuted (fadeVolume a r v t) = isVADMuted a"
  "originalVolume (fadeVolume a r v t) = originalVolume a"
  "originalGain (fadeVolume a r v t) = originalGain a"
  "currentAudio (fadeVolume a r v t) = currentAudio a"
  "demoAudio (fadeVolume a r v t) = demoAudio a"
  "audios (fadeVolume a r v t) = audios a"
  "tones (fadeVolume a r v t) = tones a"
  "volume (fadeVolume a r v t) = volume a"
  "vadDuckingFactor (fadeVolume a r v t) = vadDuckingFactor a"
  "vadFadeTime (fadeVolume a r v t) = vadFadeTime a"
  by (simp_all add: fadeVolume_def Let_def split: option.splits)

lemma fadeGain_fields:
  "isVADMuted (fadeGain a r v t) = isVADMuted a"
  "originalVolume (fadeGain a r v t) = originalVolume a"
  "originalGain (fadeGain a r v t) = originalGain a"
  "currentAudio (fadeGain a r v t) = currentAudio a"
  "demoAudio (fadeGain a r v t) = demoAudio a"
  "audios (fadeGain a r v t) = audios a"
  "intervals (fadeGain a r v t) = intervals a"
  "volume (fadeGain a r v t) = volume a"
  "vadDuckingFactor (fadeGain a r v t) = vadDuckingFactor a"
  "vadFadeTime (fadeGain a r v t) = vadFadeTime a"
  by (simp_all add: fadeGain_def split: option.splits)

lemma fadeVolume_intervals:
  "intervals (fadeVolume a (Some r) v t)
     = intervals a @
       [\<lparr> fadeElement = r, startVolume = el_volume (audios a ! r),
          volumeDiff = v - el_volume (audios a ! r), targetVolume = v,
          stepTime = t / real steps, currentStep = 0 \<rparr>]"
  by (simp add: fadeVolume_def Let_def)

lemma fadeGain_tones:
  "tones (fadeGain a (Some d) g t) = (tones a)[d := (tones a ! d)\<lparr>rampTarget := Some g\<rparr>]"
  by (simp add: fadeGain_def)

lemma onSpeechDetected_muted: "isVADMuted a \<Longrightarrow> onSpeechDetected a = a"
  by (simp add: onSpeechDetected_def)

lemma onSpeechEnded_unmuted: "\<not> isVADMuted a \<Longrightarrow> onSpeechEnded a = a"
  by (simp add: onSpeechEnded_def)

lemma onSpeechDetected_fields:
  assumes "\<not> isVADMuted a"
  shows "isVADMuted (onSpeechDetected a)"
    and "currentAudio (onSpeechDetected a) = currentAudio a"
    and "demoAudio (onSpeechDetected a) = demoAudio a"
    and "audios (onSpeechDetected a) = audios a"
    and "vadDuckingFactor (onSpeechDetected a) = vadDuckingFactor a"
    and "vadFadeTime (onSpeechDetected a) = vadFadeTime a"
    and "volume (onSpeechDetected a) = volume a"
  using assms
  by (simp_all add: onSpeechDetected_def Let_def fadeVolume_fields fadeGain_fields
        split: option.splits)

lemma onSpeechDetected_originalVolume:
  "\<not> isVADMuted a \<Longrightarrow> currentAudio a = Some r \<Longrightarrow>
     originalVolume (onSpeechDetected a) = Some (el_volume (audios a ! r))"
  by (simp add: onSpeechDetected_def Let_def fadeVolume_fields fadeGain_fields
        split: option.splits)

lemma onSpeechDetected_originalGain:
  "\<not> isVADMuted a \<Longrightarrow> demoAudio a = Some d \<Longrightarrow>
     originalGain (onSpeechDetected a) = Some (gain_value (tones a ! d))"
  by (simp add: onSpeechDetected_def Let_def fadeVolume_fields fadeGain_fields
        split: option.splits)

lemma onSpeechDetected_intervals:
  "\<not> isVADMuted a \<Longrightarrow> currentAudio a = Some r \<Longrightarrow>
     intervals (onSpeechDetected a)
       = intervals a @
         [\<lparr> fadeElement = r, startVolume = el_volume (audios a ! r),
            volumeDiff = el_volume (audios a ! r) * vadDuckingFactor a - el_volume (audios a ! r),
            targetVolume = el_volume (audios a ! r) * vadDuckingFactor a,
            stepTime = vadFadeTime a / real steps, currentStep = 0 \<rparr>]"
  by (simp add: onSpeechDetected_def Let_def fadeVolume_fields fadeGain_fields
        fadeVolume_intervals split: option.splits)

lemma onSpeechDetected_tones:
  "\<not> isVADMuted a \<Longrightarrow> demoAudio a = Some d \<Longrightarrow>
     tones (onSpeechDetected a)
       = (tones a)[d := (tones a ! d)\<lparr>rampTarget := Some (gain_value (tones a ! d) * vadDuckingFactor a)\<rparr>]"
  by (simp add: onSpeechDetected_def Let_def fadeVolume_fields fadeGain_fields
        fadeGain_tones split: option.splits)

lemma finishFades_fields:
  "isVADMuted (finishFades a) = isVADMuted a"
  "originalVolume (finishFades a) = originalVolume a"
  "originalGain (finishFades a) = originalGain a"
  "currentAudio (finishFades a) = currentAudio a"
  "demoAudio (finishFades a) = demoAudio a"
  "volume (finishFades a) = volume a"
  "vadDuckingFactor (finishFades a) = vadDuckingFactor a"
  "vadFadeTime (finishFades a) = vadFadeTime a"
  "intervals (finishFades a) = []"
  by (simp_all add: finishFades_def)


lemma onSpeechEnded_fields:
  "\<not> isVADMuted (onSpeechEnded a)"
  "currentAudio (onSpeechEnded a) = currentAudio a"
  "demoAudio (onSpeechEnded a) = demoAudio a"
  "audios (onSpeechEnded a) = audios a"
  "originalVolume (onSpeechEnded a) = originalVolume a"
  "originalGain (onSpeechEnded a) = originalGain a"
  by (simp_all add: onSpeechEnded_def Let_def fadeVolume_fields fadeGain_fields
        split: option.splits)

lemma onSpeechEnded_intervals:
  "isVADMuted a \<Longrightarrow> currentAudio a = Some r \<Longrightarrow> originalVolume a = Some v \<Longrightarrow>
     intervals (onSpeechEnded a)
       = intervals a @
         [\<lparr> fadeElement = r, startVolume = el_volume (audios a ! r),
            volumeDiff = v - el_volume (audios a ! r), targetVolume = v,
            stepTime = vadFadeTime a / real steps, currentStep = 0 \<rparr>]"
  by (simp add: onSpeechEnded_def Let_def fadeVolume_fields fadeGain_fields
        fadeVolume_intervals split: option.splits)

lemma onSpeechEnded_tones:
  "isVADMuted a \<Longrightarrow> demoAudio a = Some d \<Longrightarrow> originalGain a = Some g \<Longrightarrow>
     tones (onSpeechEnded a) = (tones a)[d := (tones a ! d)\<lparr>rampTarget := Some g\<rparr>]"
  by (simp add: onSpeechEnded_def Let_def fadeVolume_fields fadeGain_fields
        fadeGain_tones split: option.splits)

lemma foldl_runFade_length: "length (foldl (\<lambda>els f. runFade f els) els fs) = length els"
  by (induction fs arbitrary: els) (simp_all add: runFade_setVolume setVolume_length)

lemma finishFades_last:
  assumes i: "intervals a = fs @ [f]" and r: "fadeElement f < length (audios a)"
  shows "el_volume (audios (finishFades a) ! fadeElement f) = targetVolume f"
proof -
  let ?els = "foldl (\<lambda>els f. runFade f els) (audios a) fs"
  have "audios (finishFades a) = runFade f ?els"
    using i by (simp add: finishFades_def)
  then have "audios (finishFades a) = setVolume (fadeElement f) (targetVolume f) ?els"
    by (simp only: runFade_setVolume)
  moreover have "fadeElement f < length ?els"
    using r by (simp only: foldl_runFade_length)
  ultimately show ?thesis
    by (simp add: setVolume_nth)
qed

lemma finishFades_ramp:
  "d < length (tones a) \<Longrightarrow> rampTarget (tones a ! d) = Some g \<Longrightarrow>
     gain_value (tones (finishFades a) ! d) = g
     \<and> rampTarget (tones (finishFades a) ! d) = None"
  by (simp add: finishFades_def finishRamp_def)

lemma finishFades_tones_length: "length (tones (finishFades a)) = length (tones a)"
  by (simp add: finishFades_def)

lemma finishFades_audios_length: "length (audios (finishFades a)) = length (audios a)"
  by (simp add: finishFades_def foldl_runFade_length)

lemma duck_audio:
  assumes nm: "\<not> isVADMuted a" and ca: "currentAudio a = Some r" and r: "r < length (audios a)"
  shows "el_volume (audios (finishFades (onSpeechDetected a)) ! r)
           = el_volume (audios a ! r) * vadDuckingFactor a"
proof -
  let ?f = "\<lparr> fadeElement = r, startVolume = el_volume (audios a ! r),
            volumeDiff = el_volume (audios a ! r) * vadDuckingFactor a - el_volume (audios a ! r),
            targetVolume = el_volume (audios a ! r) * vadDuckingFactor a,
            stepTime = vadFadeTime a / real steps, currentStep = 0 \<rparr>"
  have i: "intervals (onSpeechDetected a) = intervals a @ [?f]"
    using nm ca by (rule onSpeechDetected_intervals)
  have l: "fadeElement ?f < length (audios (onSpeechDetected a))"
    using r nm by (simp add: onSpeechDetected_fields)
  from finishFades_last [OF i l] show ?thesis by simp
qed

lemma restore_audio:
  assumes m: "isVADMuted b" and ca: "currentAudio b = Some r" and r: "r < length (audios b)"
    and ov: "originalVolume b = Some v"
  shows "el_volume (audios (finishFades (onSpeechEnded b)) ! r) = v"
proof -
  let ?f = "\<lparr> fadeElement = r, startVolume = el_volume (audios b ! r),
            volumeDiff = v - el_volume (audios b ! r), targetVolume = v,
            stepTime = vadFadeTime b / real steps, currentStep = 0 \<rparr>"
  have i: "intervals (onSpeechEnded b) = intervals b @ [?f]"
    using m ca ov by (rule onSpeechEnded_intervals)
  have l: "fadeElement ?f < length (audios (onSpeechEnded b))"
    using r by (simp add: onSpeechEnded_fields)
  from finishFades_last [OF i l] show ?thesis by simp
qed

lemma duck_tone:
  assumes nm: "\<not> isVADMuted a" and da: "demoAudio a = Some d" and d: "d < length (tones a)"
  shows "gain_value (tones (finishFades (onSpeechDetected a)) ! d)
           = gain_value (tones a ! d) * vadDuckingFactor a"
proof -
  have t: "tones (onSpeechDetected a)
      = (tones a)[d := (tones a ! d)\<lparr>rampTarget := Some (gain_value (tones a ! d) * vadDuckingFactor a)\<rparr>]"
    using nm da by (rule onSpeechDetected_tones)
  have "d < length (tones (onSpeechDetected a))"
    using d by (simp add: t)
  moreover have "rampTarget (tones (onSpeechDetected a) ! d)
      = Some (gain_value (tones a ! d) * vadDuckingFactor a)"
    using d by (simp add: t)
  ultimately show ?thesis
    using finishFades_ramp by blast
qed

lemma restore_tone:
  assumes m: "isVADMuted b" and da: "demoAudio b = Some d" and d: "d < length (tones b)"
    and og: "originalGain b = Some g"
  shows "gain_value (tones (finishFades (onSpeechEnded b)) ! d) = g"
proof -
  have t: "tones (onSpeechEnded b) = (tones b)[d := (tones b ! d)\<lparr>rampTarget := Some g\<rparr>]"
    using m da og by (rule onSpeechEnded_tones)
  have "d < length (tones (onSpeechEnded b))"
    using d by (simp add: t)
  moreover have "rampTarget (tones (onSpeechEnded b) ! d) = Some g"
    using d by (simp add: t)
  ultimately show ?thesis
    using finishFades_ramp by blast
qed

lemmas example_eval = examplePlaying_def exampleTrack_def audio_eval

subsection \<open>Idempotence\<close>

text \<open>
  Claim C5. Ducking is idempotent. \<open>onSpeechDetected\<close> on a system that is already ducked
  changes nothing: no gain, no timer and not the stored snapshot; \<open>onSpeechEnded\<close> on a
  system that is not ducked changes nothing either. So after the first duck of a playing
  sink the snapshot is the gain the sink had immediately before, and it stays that value
  under a second notification, also one that arrives after the fade has lowered the gain.
\<close>

theorem ducking_idempotent:
  "(isVADMuted a \<longrightarrow> onSpeechDetected a = a)
   \<and> (\<not> isVADMuted a \<longrightarrow> onSpeechEnded a = a)
   \<and> (\<not> isVADMuted a \<and> currentAudio a = Some r \<longrightarrow>
        originalVolume (onSpeechDetected a) = Some (el_volume (audios a ! r))
        \<and> onSpeechDetected (onSpeechDetected a) = onSpeechDetected a
        \<and> onSpeechDetected (finishFades (onSpeechDetected a)) = finishFades (onSpeechDetected a)
        \<and> originalVolume (finishFades (onSpeechDetected a)) = Some (el_volume (audios a ! r)))
   \<and> (\<not> isVADMuted a \<and> demoAudio a = Some d \<longrightarrow>
        originalGain (onSpeechDetected a) = Some (gain_value (tones a ! d))
        \<and> originalGain (finishFades (onSpeechDetected a)) = Some (gain_value (tones a ! d)))"
proof -
  have 1: "isVADMuted a \<longrightarrow> onSpeechDetected a = a"
    by (simp add: onSpeechDetected_muted)
  have 2: "\<not> isVADMuted a \<longrightarrow> onSpeechEnded a = a"
    by (simp add: onSpeechEnded_unmuted)
  have m: "\<not> isVADMuted a \<Longrightarrow> isVADMuted (onSpeechDetected a)"
    by (rule onSpeechDetected_fields)
  have 3: "\<not> isVADMuted a \<and> currentAudio a = Some r \<longrightarrow>
        originalVolume (onSpeechDetected a) = Some (el_volume (audios a ! r))
        \<and> onSpeechDetected (onSpeechDetected a) = onSpeechDetected a
        \<and> onSpeechDetected (finishFades (onSpeechDetected a)) = finishFades (onSpeechDetected a)
        \<and> originalVolume (finishFades (onSpeechDetected a)) = Some (el_volume (audios a ! r))"
    using m by (simp add: onSpeechDetected_originalVolume onSpeechDetected_muted finishFades_fields)
  have 4: "\<not> isVADMuted a \<and> demoAudio a = Some d \<longrightarrow>
        originalGain (onSpeechDetected a) = Some (gain_value (tones a ! d))
        \<and> originalGain (finishFades (onSpeechDetected a)) = Some (gain_value (tones a ! d))"
    by (simp add: onSpeechDetected_originalGain finishFades_fields)
  from 1 2 3 4 show ?thesis by blast
qed

theorem ducking_idempotent_witness:
  "\<not> isVADMuted examplePlaying
   \<and> currentAudio examplePlaying = Some 0 \<and> demoAudio examplePlaying = Some 0
   \<and> isVADMuted (onSpeechDetected examplePlaying)
   \<and> onSpeechEnded examplePlaying = examplePlaying
   \<and> onSpeechDetected (onSpeechDetected examplePlaying) = onSpeechDetected examplePlaying
   \<and> originalVolume (onSpeechDetected examplePlaying) = Some (4 / 5)
   \<and> originalVolume (finishFades (onSpeechDetected examplePlaying)) = Some (4 / 5)
   \<and> el_volume (audios (finishFades (onSpeechDetected examplePlaying)) ! 0) = 4 / 25
   \<and> originalGain (onSpeechDetected examplePlaying) = Some (2 / 25)"
  using ducking_idempotent [of examplePlaying 0 0]
    ducking_idempotent [of "onSpeechDetected examplePlaying" 0 0]
  by (simp add: example_eval)

subsection \<open>Duck, then restore\<close>

text \<open>
  Claim C6. From a system that is not ducked and has no fade pending, for a sink with gain
  \<open>g\<close>: ducking and letting the fade run to its end brings the sink to
  \<open>g * vadDuckingFactor\<close>, and restoring and letting that fade run to its end brings it back
  to exactly \<open>g\<close>. This holds for the current audio element and for the fallback tone.
\<close>

theorem duck_restore_round_trip:
  "\<not> isVADMuted a \<Longrightarrow> intervals a = [] \<Longrightarrow>
     (\<forall>r. currentAudio a = Some r \<and> r < length (audios a) \<longrightarrow>
        el_volume (audios (finishFades (onSpeechDetected a)) ! r)
          = el_volume (audios a ! r) * vadDuckingFactor a
        \<and> el_volume (audios (finishFades (onSpeechEnded (finishFades (onSpeechDetected a)))) ! r)
          = el_volume (audios a ! r))
     \<and> (\<forall>d. demoAudio a = Some d \<and> d < length (tones a) \<longrightarrow>
        gain_value (tones (finishFades (onSpeechDetected a)) ! d)
          = gain_value (tones a ! d) * vadDuckingFactor a
        \<and> gain_value (tones (finishFades (onSpeechEnded (finishFades (onSpeechDetected a)))) ! d)
          = gain_value (tones a ! d))"
proof -
  assume nm: "\<not> isVADMuted a" and "intervals a = []"
  let ?b = "finishFades (onSpeechDetected a)"
  have mb: "isVADMuted ?b"
    using nm by (simp add: finishFades_fields onSpeechDetected_fields)
  have A: "el_volume (audios (finishFades (onSpeechEnded ?b)) ! r) = el_volume (audios a ! r)"
    if ca: "currentAudio a = Some r" and r: "r < length (audios a)" for r
  proof -
    have "currentAudio ?b = Some r"
      using nm ca by (simp add: finishFades_fields onSpeechDetected_fields)
    moreover have "r < length (audios ?b)"
      using nm r by (simp add: finishFades_audios_length onSpeechDetected_fields)
    moreover have "originalVolume ?b = Some (el_volume (audios a ! r))"
      using nm ca by (simp add: finishFades_fields onSpeechDetected_originalVolume)
    ultimately show ?thesis
      using mb restore_audio by blast
  qed
  have T: "gain_value (tones (finishFades (onSpeechEnded ?b)) ! d) = gain_value (tones a ! d)"
    if da: "demoAudio a = Some d" and d: "d < length (tones a)" for d
  proof -
    have "demoAudio ?b = Some d"
      using nm da by (simp add: finishFades_fields onSpeechDetected_fields)
    moreover have "d < length (tones ?b)"
      using nm da d by (simp add: finishFades_tones_length onSpeechDetected_tones)
    moreover have "originalGain ?b = Some (gain_value (tones a ! d))"
      using nm da by (simp add: finishFades_fields onSpeechDetected_originalGain)
    ultimately show ?thesis
      using mb restore_tone by blast
  qed
  from A T duck_audio [OF nm] duck_tone [OF nm] show ?thesis
    by blast
qed

theorem duck_restore_round_trip_witness:
  "\<not> isVADMuted examplePlaying \<and> intervals examplePlaying = []
   \<and> currentAudio examplePlaying = Some 0 \<and> 0 < length (audios examplePlaying)
   \<and> demoAudio examplePlaying = Some 0 \<and> 0 < length (tones examplePlaying)
   \<and> vadDuckingFactor examplePlaying = 1 / 5
   \<and> el_volume (audios examplePlaying ! 0) = 4 / 5
   \<and> el_volume (audios (finishFades (onSpeechDetected examplePlaying)) ! 0) = 4 / 25
   \<and> el_volume (audios (finishFades (onSpeechEnded (finishFades (onSpeechDetected examplePlaying)))) ! 0)
       = 4 / 5
   \<and> gain_value (tones examplePlaying ! 0) = 2 / 25
   \<and> gain_value (tones (finishFades (onSpeechEnded (finishFades (onSpeechDetected examplePlaying)))) ! 0)
       = 2 / 25"
  using duck_restore_round_trip [of examplePlaying]
  by (simp add: example_eval)

subsection \<open>Disabling detection during speech\<close>

text \<open>
  Claim C7. \<open>setVADEnabled(false)\<close> while speech is active makes the processor inactive,
  resets \<open>speechStartTime\<close> to null and emits \<open>SpeechEnd\<close> in the call itself, whatever
  the time. Delivered to the audio system, the event is \<open>onSpeechEnded\<close>: afterwards the
  system is not ducked, and a ducked sink with a snapshot is faded back to it, also when
  the fade of the duck is still pending.
\<close>

theorem disable_forces_speech_end:
  "isSpeechActive s \<Longrightarrow>
     setVADEnabled False s
       = (s\<lparr>vadEnabled := False, isSpeechActive := False, speechStartTime := None\<rparr>, [SpeechEnd])
     \<and> deliver (snd (setVADEnabled False s)) a = onSpeechEnded a
     \<and> \<not> isVADMuted (deliver (snd (setVADEnabled False s)) a)
     \<and> (\<forall>r v. isVADMuted a \<and> currentAudio a = Some r \<and> r < length (audios a)
               \<and> originalVolume a = Some v \<longrightarrow>
          el_volume (audios (finishFades (deliver (snd (setVADEnabled False s)) a)) ! r) = v)
     \<and> (\<forall>d g. isVADMuted a \<and> demoAudio a = Some d \<and> d < length (tones a)
               \<and> originalGain a = Some g \<longrightarrow>
          gain_value (tones (finishFades (deliver (snd (setVADEnabled False s)) a)) ! d) = g)"
proof -
  assume act: "isSpeechActive s"
  have e: "setVADEnabled False s
       = (s\<lparr>vadEnabled := False, isSpeechActive := False, speechStartTime := None\<rparr>, [SpeechEnd])"
    using act by (simp add: setVADEnabled_def)
  have d: "deliver (snd (setVADEnabled False s)) a = onSpeechEnded a"
    by (simp add: e deliver_def)
  have n: "\<not> isVADMuted (onSpeechEnded a)"
    by (rule onSpeechEnded_fields)
  from e d n restore_audio [of a] restore_tone [of a] show ?thesis
    by (simp only:) blast
qed

theorem disable_forces_speech_end_witness:
  "isSpeechActive (VoiceProcessor_new\<lparr>speechStartTime := Some 1256, lastSpeechTime := Some 1768,
       isSpeechActive := True\<rparr>)
   \<and> setVADEnabled False (VoiceProcessor_new\<lparr>speechStartTime := Some 1256,
       lastSpeechTime := Some 1768, isSpeechActive := True\<rparr>)
       = (VoiceProcessor_new\<lparr>vadEnabled := False, lastSpeechTime := Some 1768\<rparr>, [SpeechEnd])
   \<and> isVADMuted (onSpeechDetected examplePlaying)
   \<and> currentAudio (onSpeechDetected examplePlaying) = Some 0
   \<and> originalVolume (onSpeechDetected examplePlaying) = Some (4 / 5)
   \<and> \<not> isVADMuted (onSpeechEnded (onSpeechDetected examplePlaying))
   \<and> el_volume (audios (finishFades (onSpeechEnded (onSpeechDetected examplePlaying))) ! 0) = 4 / 5
   \<and> gain_value (tones (finishFades (onSpeechEnded (onSpeechDetected examplePlaying))) ! 0) = 2 / 25"
  using disable_forces_speech_end
    [of "VoiceProcessor_new\<lparr>speechStartTime := Some 1256, lastSpeechTime := Some 1768,
           isSpeechActive := True\<rparr>" "onSpeechDetected examplePlaying"]
  by (simp add: example_eval VoiceProcessor_new_def setVADEnabled_def)

subsection \<open>A new sink during speech\<close>

text \<open>
  Claim C9, as stated, fails: a sink attached while the system is ducked does not start at
  the ducked gain. With the playing element ducked from \<open>0.8\<close> to \<open>0.16\<close>, the element
  that \<open>playTrack\<close> creates starts at \<open>0.8\<close> and no fade is pending for it; the tone that
  \<open>playDemoTrack\<close> creates starts at \<open>0.08\<close>, while the ducked tone is at \<open>0.016\<close>.
\<close>

theorem new_sink_not_ducked_counterexample:
  "isVADMuted (playTrack (finishFades (onSpeechDetected examplePlaying)) exampleTrack True)
   \<and> currentAudio (playTrack (finishFades (onSpeechDetected examplePlaying)) exampleTrack True)
       = Some 1
   \<and> el_volume (audios (finishFades (onSpeechDetected examplePlaying)) ! 0) = 4 / 25
   \<and> el_volume (audios (playTrack (finishFades (onSpeechDetected examplePlaying)) exampleTrack True) ! 1)
       = 4 / 5
   \<and> intervals (playTrack (finishFades (onSpeechDetected examplePlaying)) exampleTrack True) = []
   \<and> demoAudio (fst (playDemoTrack (finishFades (onSpeechDetected examplePlaying)) ''piano''))
       = Some 1
   \<and> gain_value (tones (finishFades (onSpeechDetected examplePlaying)) ! 0) = 2 / 125
   \<and> gain_value (tones (fst (playDemoTrack (finishFades (onSpeechDetected examplePlaying)) ''piano'')) ! 1)
       = 2 / 25"
  by (simp add: example_eval)

text \<open>
  Claim C9, amended. When \<open>playTrack\<close> (with a preview URL) or \<open>playDemoTrack\<close> attaches a
  new sink, also while ducked, the new sink starts at the gain that is not ducked
  (\<open>volume\<close> for a track, \<open>volume * 0.1\<close> for the tone) and no fade is started for it;
  \<open>isVADMuted\<close> and the stored snapshot stay as they are. The element that \<open>playTrack\<close>
  replaces is paused and dropped with the gain it had, not restored; \<open>playDemoTrack\<close>
  leaves the earlier tones as they are.
\<close>

theorem new_sink_starts_unducked:
  "(truthyUrl (preview_hq_mp3 t) \<or> truthyUrl (preview_lq_mp3 t) \<longrightarrow>
      currentAudio (playTrack a t played) = Some (length (audios a))
      \<and> el_volume (audios (playTrack a t played) ! length (audios a)) = volume a
      \<and> isVADMuted (playTrack a t played) = isVADMuted a
      \<and> originalVolume (playTrack a t played) = originalVolume a
      \<and> intervals (playTrack a t played) = intervals a
      \<and> (\<forall>r. currentAudio a = Some r \<and> r < length (audios a) \<longrightarrow>
            paused (audios (playTrack a t played) ! r)
            \<and> el_volume (audios (playTrack a t played) ! r) = el_volume (audios a ! r)))
   \<and> demoAudio (fst (playDemoTrack a style)) = Some (length (tones a))
   \<and> gain_value (tones (fst (playDemoTrack a style)) ! length (tones a)) = volume a * 0.1
   \<and> rampTarget (tones (fst (playDemoTrack a style)) ! length (tones a)) = None
   \<and> isVADMuted (fst (playDemoTrack a style)) = isVADMuted a
   \<and> originalGain (fst (playDemoTrack a style)) = originalGain a
   \<and> (\<forall>d. d < length (tones a) \<longrightarrow> tones (fst (playDemoTrack a style)) ! d = tones a ! d)"
proof -
  have P: "currentAudio (playTrack a t played) = Some (length (audios a))
      \<and> el_volume (audios (playTrack a t played) ! length (audios a)) = volume a
      \<and> isVADMuted (playTrack a t played) = isVADMuted a
      \<and> originalVolume (playTrack a t played) = originalVolume a
      \<and> intervals (playTrack a t played) = intervals a
      \<and> (\<forall>r. currentAudio a = Some r \<and> r < length (audios a) \<longrightarrow>
            paused (audios (playTrack a t played) ! r)
            \<and> el_volume (audios (playTrack a t played) ! r) = el_volume (audios a ! r))"
    if u: "truthyUrl (preview_hq_mp3 t) \<or> truthyUrl (preview_lq_mp3 t)"
  proof (cases "currentAudio a")
    case None
    with u show ?thesis
      by (auto simp: playTrack_def truthyUrl_def Let_def split: option.splits)
  next
    case (Some r0)
    with u show ?thesis
      by (auto simp: playTrack_def truthyUrl_def Let_def nth_append split: option.splits)
  qed
  have D: "demoAudio (fst (playDemoTrack a style)) = Some (length (tones a))
   \<and> gain_value (tones (fst (playDemoTrack a style)) ! length (tones a)) = volume a * 0.1
   \<and> rampTarget (tones (fst (playDemoTrack a style)) ! length (tones a)) = None
   \<and> isVADMuted (fst (playDemoTrack a style)) = isVADMuted a
   \<and> originalGain (fst (playDemoTrack a style)) = originalGain a
   \<and> (\<forall>d. d < length (tones a) \<longrightarrow> tones (fst (playDemoTrack a style)) ! d = tones a ! d)"
    by (simp add: playDemoTrack_def nth_append)
  from P D show ?thesis by blast
qed

theorem new_sink_starts_unducked_witness:
  "truthyUrl (preview_hq_mp3 exampleTrack)
   \<and> isVADMuted (finishFades (onSpeechDetected examplePlaying))
   \<and> currentAudio (finishFades (onSpeechDetected examplePlaying)) = Some 0
   \<and> 0 < length (audios (finishFades (onSpeechDetected examplePlaying)))
   \<and> 0 < length (tones (finishFades (onSpeechDetected examplePlaying)))
   \<and> el_volume (audios (playTrack (finishFades (onSpeechDetected examplePlaying)) exampleTrack True) ! 1)
       = 4 / 5
   \<and> paused (audios (playTrack (finishFades (onSpeechDetected examplePlaying)) exampleTrack True) ! 0)
   \<and> el_volume (audios (playTrack (finishFades (onSpeechDetected examplePlaying)) exampleTrack True) ! 0)
       = 4 / 25
   \<and> gain_value (tones (fst (playDemoTrack (finishFades (onSpeechDetected examplePlaying)) ''piano'')) ! 0)
       = 2 / 125"
  using new_sink_starts_unducked
    [of exampleTrack "finishFades (onSpeechDetected examplePlaying)" True "''piano''"]
  by (simp add: example_eval)

end
